theory Spec2Isabelle
  imports Complex_Main "HOL-Library.Word"
begin

section \<open>JavaScript values met by the comparators\<close>

text \<open>
  Comparators.ts compares values of type \<open>number\<close>, \<open>string\<close>, \<open>Boolean\<close>, \<open>Date\<close>
  and \<open>any\<close>. The model keeps the part of the JavaScript value universe the comparators
  look at.

  A \<open>number\<close> is a finite number, \<open>Infinity\<close>, \<open>-Infinity\<close> or \<open>NaN\<close>. A finite
  number is the real number the double denotes, with \<open>0\<close> and \<open>-0\<close> taken as one: the
  comparators subtract, test against zero and test truthiness, and none of the three
  tells the two zeros apart.
\<close>

datatype jsnum = Fin real | PosInf | NegInf | NaN

text \<open>
  The binary \<open>-\<close> of JavaScript on numbers. \<open>NaN\<close> is absorbing, and the difference of
  two infinities of one sign is \<open>NaN\<close>. The difference of two finite numbers is the
  exact one: the rounding of a double can change the value of a difference and never
  its sign, and the differences of char codes, lengths and small integers met below are
  exact in doubles as well.
\<close>

fun sub :: "jsnum \<Rightarrow> jsnum \<Rightarrow> jsnum" where
  "sub (Fin a) (Fin b) = Fin (a - b)"
| "sub (Fin a) PosInf = NegInf"
| "sub (Fin a) NegInf = PosInf"
| "sub PosInf (Fin b) = PosInf"
| "sub PosInf NegInf = PosInf"
| "sub PosInf PosInf = NaN"
| "sub NegInf (Fin b) = NegInf"
| "sub NegInf PosInf = NegInf"
| "sub NegInf NegInf = NaN"
| "sub NaN y = NaN"
| "sub x NaN = NaN"

text \<open>\<open>x == 0\<close> and \<open>x != 0\<close> on a number; \<open>NaN == 0\<close> is false.\<close>

fun eq_zero :: "jsnum \<Rightarrow> bool" where
  "eq_zero (Fin a) = (a = 0)"
| "eq_zero x = False"

text \<open>
  A \<open>string\<close> is a sequence of UTF-16 code units; \<open>length\<close> counts code units and
  \<open>charCodeAt\<close> reads one as a number (\<open>NaN\<close> beyond the end).
\<close>

type_synonym jsstring = "16 word list"

definition charCodeAt :: "jsstring \<Rightarrow> nat \<Rightarrow> jsnum" where
  "charCodeAt s i = (if i < length s then Fin (real_of_int (uint (s ! i))) else NaN)"

text \<open>A string literal of the source, written with the characters of its code units.\<close>

definition lit :: "string \<Rightarrow> jsstring" where
  "lit cs = map of_char cs"

text \<open>
  The primitive values, and the values of type \<open>any\<close>: a primitive, a \<open>Date\<close> object or
  another object. An object has an identity (two objects are \<open>==\<close> and \<open>===\<close> only when
  they are the same object); a \<open>Date\<close> has its time value; and each object carries the
  primitive that JavaScript's ToPrimitive conversion gives for it, which \<open>==\<close> uses when
  the other side is a primitive (for a \<open>Date\<close>, the string of \<open>toString()\<close>). Objects
  whose conversion throws are outside this model.
\<close>

datatype prim = PUndefined | PNull | PBool bool | PNum jsnum | PStr jsstring

datatype jsval = Prim prim | DateObj nat jsnum jsstring | Obj nat prim



fun identity :: "jsval \<Rightarrow> nat" where
  "identity (DateObj r t str) = r"
| "identity (Obj r p) = r"
| "identity (Prim p) = 0"

text \<open>Truthiness, as \<open>if (ret)\<close> and \<open>e1 ? 1 : -1\<close> test it.\<close>

fun truthy :: "jsval \<Rightarrow> bool" where
  "truthy (Prim PUndefined) = False"
| "truthy (Prim PNull) = False"
| "truthy (Prim (PBool b)) = b"
| "truthy (Prim (PNum (Fin n))) = (n \<noteq> 0)"
| "truthy (Prim (PNum NaN)) = False"
| "truthy (Prim (PNum PosInf)) = True"
| "truthy (Prim (PNum NegInf)) = True"
| "truthy (Prim (PStr s)) = (s \<noteq> [])"
| "truthy _ = True"

text \<open>Equality of two numbers: \<open>NaN\<close> equals nothing.\<close>

fun num_eq :: "jsnum \<Rightarrow> jsnum \<Rightarrow> bool" where
  "num_eq (Fin a) (Fin b) = (a = b)"
| "num_eq PosInf PosInf = True"
| "num_eq NegInf NegInf = True"
| "num_eq x y = False"




text \<open>
  \<open>x == y\<close> on values: two objects are equal when they are the same object; an object
  and a primitive other than \<open>undefined\<close> and \<open>null\<close> are compared through the
  object's primitive.
\<close>

definition is_nullish :: "prim \<Rightarrow> bool" where
  "is_nullish p = (p = PUndefined \<or> p = PNull)"


text \<open>
  \<open>x == null\<close>: it holds of \<open>null\<close> and of \<open>undefined\<close> and of no other value, and no
  conversion takes part in it.
\<close>

fun loose_eq_null :: "jsval \<Rightarrow> bool" where
  "loose_eq_null (Prim p) = is_nullish p"
| "loose_eq_null x = False"

text \<open>\<open>x === y\<close>: no conversion.\<close>

fun strict_eq :: "jsval \<Rightarrow> jsval \<Rightarrow> bool" where
  "strict_eq (Prim (PNum a)) (Prim (PNum b)) = num_eq a b"
| "strict_eq (Prim p) (Prim q) = (p = q)"
| "strict_eq (Prim p) y = False"
| "strict_eq x (Prim q) = False"
| "strict_eq x y = (identity x = identity y)"

section \<open>Primitive comparators\<close>

subsection \<open>NumberComparator\<close>

definition NumberComparator_compare :: "jsnum \<Rightarrow> jsnum \<Rightarrow> jsnum" where
  "NumberComparator_compare e1 e2 = sub e1 e2"

subsection \<open>StringComparator\<close>

text \<open>
  The parameters are typed \<open>string\<close>, and the method tests them against \<open>null\<close> with
  \<open>==\<close>, which holds of \<open>null\<close> and of \<open>undefined\<close>: an argument is \<open>None\<close> for
  either of the two and \<open>Some s\<close> for a string.

  The \<open>while\<close> loop over the index \<open>i\<close>, with the loop's \<open>return delta\<close> and the
  \<open>return e1.length - e2.length\<close> after it.
\<close>

function StringComparator_loop :: "jsstring \<Rightarrow> jsstring \<Rightarrow> nat \<Rightarrow> nat \<Rightarrow> jsnum" where
  "StringComparator_loop e1 e2 minLength i =
     (if i < minLength then
        (let delta = sub (charCodeAt e1 i) (charCodeAt e2 i) in
         if eq_zero delta then StringComparator_loop e1 e2 minLength (i + 1)
         else delta)
      else Fin (real_of_int (int (length e1) - int (length e2))))"
  by pat_completeness auto
termination
  by (relation "measure (\<lambda>(e1, e2, minLength, i). minLength - i)") auto

declare StringComparator_loop.simps [simp del]

definition StringComparator_compare :: "jsstring option \<Rightarrow> jsstring option \<Rightarrow> jsnum" where
  "StringComparator_compare e1 e2 =
     (if e1 = None \<or> e2 = None then
        (if e1 = None \<and> e2 = None then Fin 0
         else if e1 = None then Fin (- 1) else Fin 1)
      else
        (let minLength = min (length (the e1)) (length (the e2)) in
         StringComparator_loop (the e1) (the e2) minLength 0))"

subsection \<open>DateComparator\<close>

text \<open>\<open>getTime()\<close> of a \<open>Date\<close>: its time value, \<open>NaN\<close> for an invalid date.\<close>

fun getTime :: "jsval \<Rightarrow> jsnum" where
  "getTime (DateObj r t str) = t"

definition DateComparator_compare :: "jsval \<Rightarrow> jsval \<Rightarrow> jsnum" where
  "DateComparator_compare e1 e2 = sub (getTime e1) (getTime e2)"

subsection \<open>BooleanComparator\<close>

text \<open>
  The parameters are typed \<open>Boolean\<close>, which a primitive boolean and a \<open>Boolean\<close>
  wrapper object satisfy. A wrapper object has an identity and the boolean it wraps.
  \<open>==\<close> on two wrappers holds when they are the same object, and on a primitive and a
  wrapper when the primitive is the wrapped boolean; a wrapper is truthy whatever it
  wraps.
\<close>

datatype Boolean = Primitive bool | Wrapper nat bool

fun Boolean_loose_eq :: "Boolean \<Rightarrow> Boolean \<Rightarrow> bool" where
  "Boolean_loose_eq (Primitive a) (Primitive b) = (a = b)"
| "Boolean_loose_eq (Primitive a) (Wrapper r b) = (a = b)"
| "Boolean_loose_eq (Wrapper r a) (Primitive b) = (a = b)"
| "Boolean_loose_eq (Wrapper r a) (Wrapper r' b) = (r = r')"

fun Boolean_truthy :: "Boolean \<Rightarrow> bool" where
  "Boolean_truthy (Primitive b) = b"
| "Boolean_truthy (Wrapper r b) = True"

definition BooleanComparator_compare :: "Boolean \<Rightarrow> Boolean \<Rightarrow> jsnum" where
  "BooleanComparator_compare e1 e2 =
     (if Boolean_loose_eq e1 e2 then Fin 0 else if Boolean_truthy e1 then Fin 1 else Fin (- 1))"

subsection \<open>HashedComparator\<close>


section \<open>Combinators\<close>

text \<open>
  \<open>ReverseComparator\<close> and \<open>DelegatableComparator\<close> store a comparator in their
  constructor and have no other state. The stored comparator is its \<open>compare\<close> method,
  over elements of type \<open>'e\<close>; what a call of it gives is of type \<open>'r\<close>: a number for the
  comparators above, a number or an error for \<open>FunctionComparator\<close>, and the state after
  the call as well for \<open>CompositeComparator\<close>.
\<close>

type_synonym ('e, 'r) Comparator = "'e \<Rightarrow> 'e \<Rightarrow> 'r"

definition ReverseComparator_compare :: "('e, 'r) Comparator \<Rightarrow> 'e \<Rightarrow> 'e \<Rightarrow> 'r" where
  "ReverseComparator_compare comparator e1 e2 = comparator e2 e1"

definition IsComparator_compare :: "jsval \<Rightarrow> jsval \<Rightarrow> jsnum" where
  "IsComparator_compare e1 e2 = (if strict_eq e1 e2 then Fin 0 else Fin 1)"

text \<open>
  \<open>Objects.equals\<close> is not part of Comparators.ts: \<open>EqualsComparator\<close> takes the deep
  equality \<open>Objects.equals(e1, e2, true)\<close> as the parameter \<open>equals\<close>.
\<close>

definition EqualsComparator_compare :: "('e \<Rightarrow> 'e \<Rightarrow> bool) \<Rightarrow> 'e \<Rightarrow> 'e \<Rightarrow> jsnum" where
  "EqualsComparator_compare equals e1 e2 = (if equals e1 e2 then Fin 0 else Fin 1)"

definition DelegatableComparator_compare :: "('e, 'r) Comparator \<Rightarrow> 'e \<Rightarrow> 'e \<Rightarrow> 'r" where
  "DelegatableComparator_compare comparator e1 e2 = comparator e1 e2"

section \<open>Function adaptation\<close>

text \<open>
  What a caller can hand to \<open>new FunctionComparator(f)\<close> and to \<open>addComparator\<close>: the
  declared type is \<open>Function | Func2 | Comparator\<close>, and at run time any value arrives.
  The model tells apart what \<open>isComparator\<close> and the call tell apart:
  \<^item> \<open>Value v\<close>: a value that is not callable and has no callable \<open>compare\<close> property
    (\<open>null\<close>, \<open>undefined\<close>, a number, a plain object);
  \<^item> \<open>Function f\<close>: a function, as \<open>Functions.callFunction\<close> runs it: \<open>f e1 e2\<close> is what
    \<open>callFunction(f, e1, e2)\<close> returns. For a function that does not read its
    parameters, such as \<open>() => -2\<close>, that is the value the function returns;
  \<^item> \<open>AbstractComparatorInstance c\<close>: an instance of a subclass of \<open>AbstractComparator\<close>,
    with its \<open>compare\<close> method;
  \<^item> \<open>ObjectWithCompare n c\<close>: another object whose \<open>compare\<close> property is a function
    declared with \<open>n\<close> parameters (its \<open>length\<close>).
  A call returns a value of any type.
\<close>

type_synonym js_function = "jsval \<Rightarrow> jsval \<Rightarrow> jsval"

datatype candidate =
    Value jsval
  | Function js_function
  | AbstractComparatorInstance js_function
  | ObjectWithCompare nat js_function

datatype error = IllegalArgument "string option" | TypeError

text \<open>\<open>c == null\<close> on a candidate, which holds of \<open>null\<close> and of \<open>undefined\<close> only.\<close>

fun eq_null :: "candidate \<Rightarrow> bool" where
  "eq_null (Value v) = loose_eq_null v"
| "eq_null _ = False"

text \<open>
  Modelled from the spec: \<open>Objects.isNull\<close>, the null-check predicate (Objects.ts is not
  among the sources). \<open>null\<close> and \<open>undefined\<close> are null.
\<close>

definition isNull :: "candidate \<Rightarrow> bool" where
  "isNull c = eq_null c"

text \<open>
  Modelled from the spec: \<open>Types.isFunction\<close> (Types.ts is not among the sources), here
  applied to the property \<open>c["compare"]\<close>: the property is a function in an
  \<open>AbstractComparator\<close> instance and in an \<open>ObjectWithCompare\<close>.
\<close>

fun compare_property :: "candidate \<Rightarrow> (nat \<times> js_function) option" where
  "compare_property (ObjectWithCompare n c) = Some (n, c)"
| "compare_property (AbstractComparatorInstance c) = Some (2, c)"
| "compare_property _ = None"

fun instanceof_AbstractComparator :: "candidate \<Rightarrow> bool" where
  "instanceof_AbstractComparator (AbstractComparatorInstance c) = True"
| "instanceof_AbstractComparator _ = False"

definition isComparator :: "candidate \<Rightarrow> bool" where
  "isComparator c =
     (if isNull c then False
      else if instanceof_AbstractComparator c then True
      else (case compare_property c of
              Some (func_length, func) \<Rightarrow> func_length \<ge> 2
            | None \<Rightarrow> False))"

text \<open>
  Modelled from the spec: \<open>Types.isFunction\<close> on the candidate itself, the test for a
  callable.
\<close>

fun isFunction :: "candidate \<Rightarrow> bool" where
  "isFunction (Function f) = True"
| "isFunction _ = False"

text \<open>
  Modelled from the spec: \<open>Functions.judgeFuncType\<close> and the enumeration \<open>FunctionType\<close>
  (Functions.ts is not among the sources). The spec describes a callable-type classifier
  distinguishing "no function", "plain function" and "comparator-like object" shapes;
  \<open>UNKNOWN\<close> is the member the constructor tests for.
\<close>

datatype FunctionType = UNKNOWN | PLAIN_FUNCTION | COMPARATOR_LIKE

definition judgeFuncType :: "candidate \<Rightarrow> FunctionType" where
  "judgeFuncType f =
     (if isFunction f then PLAIN_FUNCTION
      else if isComparator f then COMPARATOR_LIKE
      else UNKNOWN)"

text \<open>
  Modelled from the spec: \<open>Preconditions.checkTrue\<close>, the invariant-assertion primitive
  that fails fast with a descriptive error when a boolean condition is false
  (Preconditions.ts is not among the sources). The error is an invalid-argument failure
  carrying the message, when one is passed.
\<close>

definition checkTrue :: "bool \<Rightarrow> string option \<Rightarrow> error + unit" where
  "checkTrue expression message = (if expression then Inr () else Inl (IllegalArgument message))"

text \<open>
  Modelled from the spec: \<open>Functions.callFunction\<close>, which invokes its first argument as
  a two-argument callable (Functions.ts is not among the sources). How \<open>e1\<close> and \<open>e2\<close>
  reach the parameters of the function is part of what \<open>Function f\<close> stands for.
  Calling what is not a function is JavaScript's TypeError.
\<close>

fun callFunction :: "candidate \<Rightarrow> jsval \<Rightarrow> jsval \<Rightarrow> error + jsval" where
  "callFunction (Function f) e1 e2 = Inr (f e1 e2)"
| "callFunction _ e1 e2 = Inl TypeError"

text \<open>
  Modelled from the spec: \<open>Types.isNumber\<close>, the runtime test for a number.
\<close>

fun isNumber :: "jsval \<Rightarrow> bool" where
  "isNumber (Prim (PNum n)) = True"
| "isNumber _ = False"

text \<open>The \<open>number\<close> a value is, where \<open>isNumber\<close> holds of it.\<close>

fun asNumber :: "jsval \<Rightarrow> jsnum" where
  "asNumber (Prim (PNum n)) = n"

subsection \<open>FunctionComparator\<close>

datatype FunctionComparator = FunctionComparator (this_comp: candidate)

definition FunctionComparator_new :: "candidate \<Rightarrow> error + FunctionComparator" where
  "FunctionComparator_new f =
     (case checkTrue (judgeFuncType f \<noteq> UNKNOWN) (Some ''argument is not a function'') of
        Inl e \<Rightarrow> Inl e
      | Inr _ \<Rightarrow> Inr (FunctionComparator f))"

text \<open>
  \<open>(<Comparator<any>>this.comp).compare(e1, e2)\<close>: the call of the \<open>compare\<close> property,
  a TypeError where there is none.
\<close>

definition call_compare :: "candidate \<Rightarrow> jsval \<Rightarrow> jsval \<Rightarrow> error + jsval" where
  "call_compare c e1 e2 =
     (case compare_property c of
        Some (func_length, func) \<Rightarrow> Inr (func e1 e2)
      | None \<Rightarrow> Inl TypeError)"

text \<open>The three \<open>return\<close>s of \<open>FunctionComparator.compare\<close>, in the order of the source.\<close>

definition interpret_ret :: "jsval \<Rightarrow> jsnum" where
  "interpret_ret ret =
     (if truthy ret then Fin 0
      else if isNumber ret then asNumber ret
      else Fin 1)"

definition FunctionComparator_compare :: "FunctionComparator \<Rightarrow> jsval \<Rightarrow> jsval \<Rightarrow> error + jsnum" where
  "FunctionComparator_compare this e1 e2 =
     (case (if isComparator (this_comp this) then call_compare (this_comp this) e1 e2
            else callFunction (this_comp this) e1 e2) of
        Inl e \<Rightarrow> Inl e
      | Inr ret \<Rightarrow> Inr (interpret_ret ret))"

definition functionComparator :: "candidate \<Rightarrow> error + FunctionComparator" where
  "functionComparator f = FunctionComparator_new f"

section \<open>CompositeComparator\<close>

text \<open>
  Modelled from the spec: \<open>Collects.forEach\<close>, the iteration operation that supports
  early termination via a stop predicate (Collects.ts is not among the sources). It
  visits the elements in order, hands those the consume predicate accepts to the
  consumer, and stops once the break predicate holds. The consumer works on the state
  \<open>'s\<close> its closure captures, which the break predicate reads; an exception of the
  consumer ends the iteration. Both predicates are optional arguments.
\<close>

fun forEach ::
  "'a list \<Rightarrow> ('a \<Rightarrow> 's \<Rightarrow> error + 's) \<Rightarrow> ('a \<Rightarrow> bool) option \<Rightarrow> ('s \<Rightarrow> bool) option \<Rightarrow> 's
     \<Rightarrow> error + 's" where
  "forEach [] consumer consumePredicate breakPredicate s = Inr s"
| "forEach (x # xs) consumer consumePredicate breakPredicate s =
     (case (if (case consumePredicate of None \<Rightarrow> True | Some p \<Rightarrow> p x)
            then consumer x s else Inr s) of
        Inl e \<Rightarrow> Inl e
      | Inr s' \<Rightarrow>
          if (case breakPredicate of None \<Rightarrow> False | Some b \<Rightarrow> b s') then Inr s'
          else forEach xs consumer consumePredicate breakPredicate s')"

text \<open>Modelled from the spec: \<open>Functions.truePredicate()\<close>, the predicate that accepts all.\<close>

definition truePredicate :: "'a \<Rightarrow> bool" where
  "truePredicate x = True"

record CompositeComparator =
  comps :: "FunctionComparator list"
  started :: bool

definition CompositeComparator_new :: CompositeComparator where
  "CompositeComparator_new = \<lparr>comps = [], started = False\<rparr>"

definition addComparator :: "CompositeComparator \<Rightarrow> candidate \<Rightarrow> error + CompositeComparator" where
  "addComparator this comparator =
     (if \<not> started this then
        (case FunctionComparator_new comparator of
           Inl e \<Rightarrow> Inl e
         | Inr fc \<Rightarrow> Inr (this\<lparr>comps := comps this @ [fc]\<rparr>))
      else Inr this)"

text \<open>
  \<open>compare\<close> returns the composite after the call, with \<open>started\<close> set by the first
  statement whatever follows, and the number returned or the error thrown. The state of
  the iteration is the local variable \<open>result\<close>.
\<close>

definition CompositeComparator_compare ::
  "CompositeComparator \<Rightarrow> jsval \<Rightarrow> jsval \<Rightarrow> CompositeComparator \<times> (error + jsnum)" where
  "CompositeComparator_compare this e1 e2 =
     (let this' = this\<lparr>started := True\<rparr> in
      (this',
       case checkTrue (comps this' \<noteq> []) None of
         Inl e \<Rightarrow> Inl e
       | Inr _ \<Rightarrow>
           forEach (comps this')
             (\<lambda>comparator result. FunctionComparator_compare comparator e1 e2)
             (Some truePredicate)
             (Some (\<lambda>result. \<not> eq_zero result))
             (Fin 0)))"

definition wrapComparators :: "candidate list \<Rightarrow> error + CompositeComparator" where
  "wrapComparators funcs =
     forEach funcs
       (\<lambda>c comparator. addComparator comparator c)
       (Some (\<lambda>c. \<not> eq_null c))
       None
       CompositeComparator_new"

section \<open>ObjectComparator\<close>






section \<open>Notions the claims are stated with\<close>

text \<open>
  The sign of a number other than \<open>NaN\<close>. Two results have opposite signs when both are
  numbers other than \<open>NaN\<close> and one's sign is the negation of the other's: both zero, or
  one negative and the other positive.
\<close>

fun sign :: "jsnum \<Rightarrow> real option" where
  "sign (Fin x) = Some (sgn x)"
| "sign PosInf = Some 1"
| "sign NegInf = Some (- 1)"
| "sign NaN = None"

definition opposite_sign :: "jsnum \<Rightarrow> jsnum \<Rightarrow> bool" where
  "opposite_sign x y =
     (case (sign x, sign y) of
        (Some sx, Some sy) \<Rightarrow> sx = - sy
      | _ \<Rightarrow> False)"

text \<open>
  A client's calls on one composite comparator, in order, and the results of its
  \<open>compare\<close> calls. An \<open>addComparator\<close> call that throws leaves the composite as it
  was, and the client goes on.
\<close>

datatype call = AddComparator candidate | Compare jsval jsval

fun is_Compare :: "call \<Rightarrow> bool" where
  "is_Compare (Compare e1 e2) = True"
| "is_Compare (AddComparator c) = False"

fun run :: "CompositeComparator \<Rightarrow> call list \<Rightarrow> (error + jsnum) list" where
  "run this [] = []"
| "run this (AddComparator c # calls) =
     (case addComparator this c of
        Inl e \<Rightarrow> run this calls
      | Inr this' \<Rightarrow> run this' calls)"
| "run this (Compare e1 e2 # calls) =
     snd (CompositeComparator_compare this e1 e2)
       # run (fst (CompositeComparator_compare this e1 e2)) calls"

text \<open>
  The first result that is not \<open>== 0\<close> in a list of results, and \<open>0\<close> when there is
  none: what the spec says the composite returns, given the results of its chain.
\<close>

fun first_nonzero :: "jsnum list \<Rightarrow> jsnum" where
  "first_nonzero [] = Fin 0"
| "first_nonzero (r # rs) = (if eq_zero r then first_nonzero rs else r)"



section \<open>The string comparator's loop\<close>

lemma StringComparator_loop_mismatch:
  assumes "i \<le> k" "k < m" "m \<le> length s" "m \<le> length t"
    and "\<forall>j. i \<le> j \<and> j < k \<longrightarrow> s ! j = t ! j" "s ! k \<noteq> t ! k"
  shows "StringComparator_loop s t m i = Fin (real_of_int (uint (s ! k) - uint (t ! k)))"
  using assms
proof (induction s t m i rule: StringComparator_loop.induct)
  case (1 e1 e2 minLength i)
  have lt: "i < minLength" using "1.prems" by simp
  have len: "i < length e1" "i < length e2" using "1.prems" by simp_all
  show ?case
  proof (cases "i = k")
    case True
    with "1.prems" len lt show ?thesis
      by (subst StringComparator_loop.simps) (simp add: charCodeAt_def word_eq_iff_unsigned [where ?'a = real])
  next
    case False
    with "1.prems" have ik: "i + 1 \<le> k" and same: "e1 ! i = e2 ! i" by simp_all
    have d: "eq_zero (sub (charCodeAt e1 i) (charCodeAt e2 i))"
      using len same by (simp add: charCodeAt_def)
    have "StringComparator_loop e1 e2 minLength (i + 1) = Fin (real_of_int (uint (e1 ! k) - uint (e2 ! k)))"
      using "1.IH" [OF lt refl d ik] "1.prems" by simp
    then show ?thesis
      using lt d by (subst StringComparator_loop.simps) (simp add: Let_def)
  qed
qed

lemma StringComparator_loop_agree:
  assumes "m \<le> length s" "m \<le> length t"
    and "\<forall>j. i \<le> j \<and> j < m \<longrightarrow> s ! j = t ! j"
  shows "StringComparator_loop s t m i = Fin (real_of_int (int (length s) - int (length t)))"
  using assms
proof (induction s t m i rule: StringComparator_loop.induct)
  case (1 e1 e2 minLength i)
  show ?case
  proof (cases "i < minLength")
    case True
    with "1.prems" have len: "i < length e1" "i < length e2" and same: "e1 ! i = e2 ! i"
      by simp_all
    have d: "eq_zero (sub (charCodeAt e1 i) (charCodeAt e2 i))"
      using len same by (simp add: charCodeAt_def)
    have "StringComparator_loop e1 e2 minLength (i + 1) = Fin (real_of_int (int (length e1) - int (length e2)))"
      using "1.IH" [OF True refl d] "1.prems" by simp
    then show ?thesis
      using True d by (subst StringComparator_loop.simps) (simp add: Let_def)
  next
    case False
    then show ?thesis
      by (subst StringComparator_loop.simps) simp
  qed
qed

lemma StringComparator_compare_strings:
  "StringComparator_compare (Some s) (Some t) =
     StringComparator_loop s t (min (length s) (length t)) 0"
  by (simp add: StringComparator_compare_def)

section \<open>Claims about the primitive comparators\<close>

text \<open>
  C4. The string comparator: two nulls compare \<open>0\<close>; a null orders before a string
  (\<open>-1\<close> when \<open>e1\<close> is null, \<open>1\<close> when \<open>e2\<close> is); for two strings the
  result is the difference of the char codes at the first position, within the shorter
  length, where they differ, and that difference is not zero; when they agree on the
  shorter length the result is the difference of the lengths, so that a string orders
  before each of its proper extensions.
\<close>

theorem StringComparator_compare_null_and_lexicographic:
  "StringComparator_compare None None = Fin 0
   \<and> StringComparator_compare None (Some t) = Fin (- 1)
   \<and> StringComparator_compare (Some s) None = Fin 1
   \<and> (k < min (length s) (length t) \<and> s ! k \<noteq> t ! k \<and> (\<forall>j. j < k \<longrightarrow> s ! j = t ! j)
        \<longrightarrow> StringComparator_compare (Some s) (Some t)
              = Fin (real_of_int (uint (s ! k) - uint (t ! k)))
            \<and> uint (s ! k) - uint (t ! k) \<noteq> 0)
   \<and> ((\<forall>j. j < min (length s) (length t) \<longrightarrow> s ! j = t ! j)
        \<longrightarrow> StringComparator_compare (Some s) (Some t)
              = Fin (real_of_int (int (length s) - int (length t))))
   \<and> (u \<noteq> [] \<longrightarrow> (\<exists>d. d < 0 \<and> StringComparator_compare (Some s) (Some (s @ u)) = Fin d))"
proof -
  have nulls: "StringComparator_compare None None = Fin 0"
    "StringComparator_compare None (Some t) = Fin (- 1)"
    "StringComparator_compare (Some s) None = Fin 1"
    by (simp_all add: StringComparator_compare_def)
  have mismatch: "StringComparator_compare (Some s) (Some t)
        = Fin (real_of_int (uint (s ! k) - uint (t ! k)))
      \<and> uint (s ! k) - uint (t ! k) \<noteq> 0"
    if "k < min (length s) (length t) \<and> s ! k \<noteq> t ! k \<and> (\<forall>j. j < k \<longrightarrow> s ! j = t ! j)"
  proof -
    have "StringComparator_loop s t (min (length s) (length t)) 0
        = Fin (real_of_int (uint (s ! k) - uint (t ! k)))"
      using that by (intro StringComparator_loop_mismatch) simp_all
    moreover have "uint (s ! k) \<noteq> uint (t ! k)"
      using that by (simp add: word_uint_eq_iff)
    ultimately show ?thesis
      by (simp add: StringComparator_compare_strings)
  qed
  have agree: "StringComparator_compare (Some s') (Some t')
        = Fin (real_of_int (int (length s') - int (length t')))"
    if "\<forall>j. j < min (length s') (length t') \<longrightarrow> s' ! j = t' ! j" for s' t'
  proof -
    have "StringComparator_loop s' t' (min (length s') (length t')) 0
        = Fin (real_of_int (int (length s') - int (length t')))"
      using that by (intro StringComparator_loop_agree) simp_all
    then show ?thesis
      by (simp add: StringComparator_compare_strings)
  qed
  have prefix: "\<exists>d. d < 0 \<and> StringComparator_compare (Some s) (Some (s @ u)) = Fin d" if "u \<noteq> []"
  proof -
    have "StringComparator_compare (Some s) (Some (s @ u))
        = Fin (real_of_int (int (length s) - int (length (s @ u))))"
      by (rule agree) (simp add: nth_append)
    moreover have "real_of_int (int (length s) - int (length (s @ u))) < 0"
      using that by simp
    ultimately show ?thesis by blast
  qed
  from nulls mismatch agree [of s t] prefix show ?thesis
    by blast
qed

theorem StringComparator_compare_witness:
  "StringComparator_compare None (Some (lit ''x'')) = Fin (- 1)
   \<and> StringComparator_compare (Some (lit ''x'')) None = Fin 1
   \<and> StringComparator_compare (Some (lit ''ab'')) (Some (lit ''ac'')) = Fin (- 1)
   \<and> StringComparator_compare (Some (lit ''a'')) (Some (lit ''a'')) = Fin 0
   \<and> (\<exists>d. d < 0 \<and> StringComparator_compare (Some (lit ''ab'')) (Some (lit ''ab'' @ lit ''a'')) = Fin d)"
proof -
  have h1: "1 < min (length (lit ''ab'')) (length (lit ''ac''))
      \<and> lit ''ab'' ! 1 \<noteq> lit ''ac'' ! 1 \<and> (\<forall>j. j < 1 \<longrightarrow> lit ''ab'' ! j = lit ''ac'' ! j)"
    by (simp add: lit_def)
  have h2: "\<forall>j. j < min (length (lit ''a'')) (length (lit ''a'')) \<longrightarrow> lit ''a'' ! j = lit ''a'' ! j"
    by simp
  have h3: "lit ''a'' \<noteq> []"
    by (simp add: lit_def)
  note a = StringComparator_compare_null_and_lexicographic [of "lit ''x''" "lit ''x''" 0 "[]"]
  note b = StringComparator_compare_null_and_lexicographic [of "lit ''ac''" "lit ''ab''" 1 "lit ''a''"]
  note c = StringComparator_compare_null_and_lexicographic [of "lit ''a''" "lit ''a''" 0 "[]"]
  from a have "StringComparator_compare None (Some (lit ''x'')) = Fin (- 1)"
    "StringComparator_compare (Some (lit ''x'')) None = Fin 1" by blast+
  moreover from b h1 have "StringComparator_compare (Some (lit ''ab'')) (Some (lit ''ac'')) = Fin (- 1)"
    by (simp add: lit_def)
  moreover from c h2 have "StringComparator_compare (Some (lit ''a'')) (Some (lit ''a'')) = Fin 0"
    by simp
  moreover from b h3 have "\<exists>d. d < 0 \<and> StringComparator_compare (Some (lit ''ab'')) (Some (lit ''ab'' @ lit ''a'')) = Fin d"
    by blast
  ultimately show ?thesis by blast
qed

lemma StringComparator_loop_antisym:
  assumes "m \<le> length s" "m \<le> length t"
  shows "\<exists>d. StringComparator_loop s t m i = Fin d \<and> StringComparator_loop t s m i = Fin (- d)"
  using assms
proof (induction s t m i rule: StringComparator_loop.induct)
  case (1 e1 e2 minLength i)
  show ?case
  proof (cases "i < minLength")
    case False
    then show ?thesis
      by (subst (1 2) StringComparator_loop.simps) simp
  next
    case True
    with "1.prems" have len: "i < length e1" "i < length e2" by simp_all
    show ?thesis
    proof (cases "e1 ! i = e2 ! i")
      case same: True
      have d: "eq_zero (sub (charCodeAt e1 i) (charCodeAt e2 i))"
        using len same by (simp add: charCodeAt_def)
      have d': "eq_zero (sub (charCodeAt e2 i) (charCodeAt e1 i))"
        using len same by (simp add: charCodeAt_def)
      from "1.IH" [OF True refl d] "1.prems" obtain k where
        "StringComparator_loop e1 e2 minLength (i + 1) = Fin k"
        "StringComparator_loop e2 e1 minLength (i + 1) = Fin (- k)" by auto
      then show ?thesis
        using True d d' by (subst (1 2) StringComparator_loop.simps) (simp add: Let_def)
    next
      case differ: False
      then show ?thesis
        using True len
        by (subst (1 2) StringComparator_loop.simps)
          (simp add: Let_def charCodeAt_def word_eq_iff_unsigned [where ?'a = real])
    qed
  qed
qed

lemma StringComparator_compare_antisym:
  "\<exists>d. StringComparator_compare s t = Fin d \<and> StringComparator_compare t s = Fin (- d)"
proof (cases s)
  case None
  then show ?thesis by (cases t) (simp_all add: StringComparator_compare_def)
next
  case (Some a)
  show ?thesis
  proof (cases t)
    case None
    with Some show ?thesis by (simp add: StringComparator_compare_def)
  next
    case (Some b)
    from StringComparator_loop_antisym [of "min (length a) (length b)" a b 0]
    show ?thesis
      using \<open>s = Some a\<close> Some by (simp add: StringComparator_compare_def min.commute)
  qed
qed


lemma strict_eq_sym: "strict_eq x y = strict_eq y x"
proof -
  have n: "num_eq a b = num_eq b a" for a b
    by (cases a; cases b) auto
  have p: "strict_eq (Prim p) (Prim q) = strict_eq (Prim q) (Prim p)" for p q
    by (cases p; cases q) (auto simp: n)
  show ?thesis
    by (cases x; cases y) (auto simp: p)
qed

lemma NumberComparator_compare_antisym:
  assumes "a \<noteq> NaN" "b \<noteq> NaN"
    and "\<not> (a = PosInf \<and> b = PosInf)" "\<not> (a = NegInf \<and> b = NegInf)"
  shows "opposite_sign (NumberComparator_compare a b) (NumberComparator_compare b a)"
  using assms
  by (cases a; cases b) (simp_all add: NumberComparator_compare_def opposite_sign_def sgn_if)

lemma BooleanComparator_compare_antisym:
  "opposite_sign (BooleanComparator_compare (Primitive p) (Primitive q))
     (BooleanComparator_compare (Primitive q) (Primitive p))"
  by (simp add: BooleanComparator_compare_def opposite_sign_def)

text \<open>
  C6, as the source has it. \<open>compare(a, b)\<close> and \<open>compare(b, a)\<close> have opposite signs,
  and are zero together, for the number comparator on two numbers other than \<open>NaN\<close>
  that are not two infinities of one sign; for the string comparator on two strings
  (or nulls); for the date comparator on two dates with a valid time; and for the
  Boolean comparator on two primitive booleans. The identity-equality and
  deep-equality comparators are not antisymmetric: on a pair they tell apart both
  orders give \<open>1\<close>.
\<close>

theorem ordering_comparators_antisymmetric:
  "(a \<noteq> NaN \<and> b \<noteq> NaN \<and> \<not> (a = PosInf \<and> b = PosInf) \<and> \<not> (a = NegInf \<and> b = NegInf)
      \<longrightarrow> opposite_sign (NumberComparator_compare a b) (NumberComparator_compare b a))
   \<and> opposite_sign (StringComparator_compare s t) (StringComparator_compare t s)
   \<and> opposite_sign (DateComparator_compare (DateObj r1 (Fin t1) str1) (DateObj r2 (Fin t2) str2))
        (DateComparator_compare (DateObj r2 (Fin t2) str2) (DateObj r1 (Fin t1) str1))
   \<and> opposite_sign (BooleanComparator_compare (Primitive p) (Primitive q))
        (BooleanComparator_compare (Primitive q) (Primitive p))
   \<and> (\<not> strict_eq x y \<longrightarrow>
        IsComparator_compare x y = Fin 1 \<and> IsComparator_compare y x = Fin 1
        \<and> \<not> opposite_sign (IsComparator_compare x y) (IsComparator_compare y x))
   \<and> (\<not> equals v w \<and> \<not> equals w v \<longrightarrow>
        EqualsComparator_compare equals v w = Fin 1 \<and> EqualsComparator_compare equals w v = Fin 1
        \<and> \<not> opposite_sign (EqualsComparator_compare equals v w) (EqualsComparator_compare equals w v))"
proof -
  have number: "opposite_sign (NumberComparator_compare a b) (NumberComparator_compare b a)"
    if "a \<noteq> NaN \<and> b \<noteq> NaN \<and> \<not> (a = PosInf \<and> b = PosInf) \<and> \<not> (a = NegInf \<and> b = NegInf)"
    using that by (intro NumberComparator_compare_antisym) simp_all
  obtain d where "StringComparator_compare s t = Fin d" "StringComparator_compare t s = Fin (- d)"
    using StringComparator_compare_antisym by blast
  then have string: "opposite_sign (StringComparator_compare s t) (StringComparator_compare t s)"
    by (simp add: opposite_sign_def sgn_if)
  have date: "opposite_sign (DateComparator_compare (DateObj r1 (Fin t1) str1) (DateObj r2 (Fin t2) str2))
        (DateComparator_compare (DateObj r2 (Fin t2) str2) (DateObj r1 (Fin t1) str1))"
    by (simp add: DateComparator_compare_def opposite_sign_def sgn_if)
  note boolean = BooleanComparator_compare_antisym [of p q]
  have "is": "IsComparator_compare x y = Fin 1 \<and> IsComparator_compare y x = Fin 1
        \<and> \<not> opposite_sign (IsComparator_compare x y) (IsComparator_compare y x)"
    if "\<not> strict_eq x y"
    using that strict_eq_sym [of x y] by (simp add: IsComparator_compare_def opposite_sign_def)
  have equals: "EqualsComparator_compare equals v w = Fin 1 \<and> EqualsComparator_compare equals w v = Fin 1
        \<and> \<not> opposite_sign (EqualsComparator_compare equals v w) (EqualsComparator_compare equals w v)"
    if "\<not> equals v w \<and> \<not> equals w v"
    using that by (simp add: EqualsComparator_compare_def opposite_sign_def)
  from number string date boolean "is" equals show ?thesis
    by blast
qed

theorem ordering_comparators_antisymmetric_witness:
  "NumberComparator_compare (Fin 3) (Fin 5) = Fin (- 2)
   \<and> opposite_sign (NumberComparator_compare (Fin 3) (Fin 5)) (NumberComparator_compare (Fin 5) (Fin 3))
   \<and> opposite_sign (NumberComparator_compare (Fin 2.5) PosInf) (NumberComparator_compare PosInf (Fin 2.5))
   \<and> opposite_sign (NumberComparator_compare NegInf PosInf) (NumberComparator_compare PosInf NegInf)
   \<and> opposite_sign (StringComparator_compare None (Some (lit ''x''))) (StringComparator_compare (Some (lit ''x'')) None)
   \<and> opposite_sign (DateComparator_compare (DateObj 1 (Fin 1000) []) (DateObj 2 (Fin 86400000) []))
        (DateComparator_compare (DateObj 2 (Fin 86400000) []) (DateObj 1 (Fin 1000) []))
   \<and> opposite_sign (BooleanComparator_compare (Primitive True) (Primitive False))
        (BooleanComparator_compare (Primitive False) (Primitive True))
   \<and> \<not> strict_eq (Prim (PNum (Fin 1))) (Prim (PNum (Fin 2)))
   \<and> IsComparator_compare (Prim (PNum (Fin 1))) (Prim (PNum (Fin 2))) = Fin 1
   \<and> IsComparator_compare (Prim (PNum (Fin 2))) (Prim (PNum (Fin 1))) = Fin 1
   \<and> EqualsComparator_compare (=) (1 :: int) 2 = Fin 1
   \<and> EqualsComparator_compare (=) (2 :: int) 1 = Fin 1"
  using ordering_comparators_antisymmetric
    [of "Fin 3" "Fin 5" None "Some (lit ''x'')" 1 1000 "[]" 2 86400000 "[]" True False
        "Prim (PNum (Fin 1))" "Prim (PNum (Fin 2))" "(=)" "1 :: int" 2]
    ordering_comparators_antisymmetric
    [of "Fin 2.5" PosInf None None 1 0 "[]" 1 0 "[]" True True
        "Prim (PNum (Fin 1))" "Prim (PNum (Fin 2))" "(=)" "1 :: int" 2]
    ordering_comparators_antisymmetric
    [of NegInf PosInf None None 1 0 "[]" 1 0 "[]" True True
        "Prim (PNum (Fin 1))" "Prim (PNum (Fin 2))" "(=)" "1 :: int" 2]
  by (simp add: NumberComparator_compare_def)

text \<open>
  C6, as the claim states it, fails for the number comparator at \<open>Infinity\<close> and
  \<open>Infinity\<close>, two numbers other than \<open>NaN\<close>: the difference is \<open>NaN\<close> in both orders,
  which has no sign. It fails for the Boolean comparator at two distinct wrapper
  objects, \<open>new Boolean(false)\<close> and \<open>new Boolean(true)\<close>: they are not \<open>==\<close> and
  each is truthy, so both orders give \<open>1\<close>.
\<close>

theorem ordering_comparators_antisymmetric_counterexample:
  "NumberComparator_compare PosInf PosInf = NaN
   \<and> \<not> opposite_sign (NumberComparator_compare PosInf PosInf) (NumberComparator_compare PosInf PosInf)
   \<and> BooleanComparator_compare (Wrapper 1 False) (Wrapper 2 True) = Fin 1
   \<and> BooleanComparator_compare (Wrapper 2 True) (Wrapper 1 False) = Fin 1
   \<and> \<not> opposite_sign (BooleanComparator_compare (Wrapper 1 False) (Wrapper 2 True))
        (BooleanComparator_compare (Wrapper 2 True) (Wrapper 1 False))"
  by (simp add: NumberComparator_compare_def BooleanComparator_compare_def opposite_sign_def)

section \<open>Claims about the combinators\<close>

text \<open>
  C5. For every inner comparator \<open>C\<close> and all values \<open>a\<close> and \<open>b\<close>,
  \<open>reverse(C).compare(a, b)\<close> is \<open>C.compare(b, a)\<close>, whatever a call of \<open>C\<close> gives.
\<close>

theorem ReverseComparator_compare_swaps:
  "ReverseComparator_compare C a b = C b a"
  by (simp add: ReverseComparator_compare_def)

theorem ReverseComparator_compare_swaps_witness:
  "ReverseComparator_compare NumberComparator_compare (Fin 3) (Fin 5) = Fin 2
   \<and> ReverseComparator_compare StringComparator_compare None (Some (lit ''x'')) = Fin 1"
  using ReverseComparator_compare_swaps [of NumberComparator_compare "Fin 3" "Fin 5"]
    ReverseComparator_compare_swaps [of StringComparator_compare None "Some (lit ''x'')"]
  by (simp add: NumberComparator_compare_def StringComparator_compare_def)

subsection \<open>What FunctionComparator makes of a raw result\<close>

lemma interpret_ret_finite_number: "interpret_ret (Prim (PNum (Fin n))) = Fin 0"
  by (simp add: interpret_ret_def)

lemma interpret_ret_range: "interpret_ret ret \<in> {Fin 0, Fin 1, NaN}"
proof (cases ret)
  case (Prim p)
  then show ?thesis
  proof (cases p)
    case (PNum n)
    with Prim show ?thesis by (cases n) (simp_all add: interpret_ret_def)
  qed (simp_all add: interpret_ret_def)
qed (simp_all add: interpret_ret_def)

text \<open>
  C1. The claim has every number the wrapped callable returns passed through unchanged.
  The source tests \<open>if (ret)\<close> before \<open>Types.isNumber(ret)\<close>, so a number other than
  \<open>0\<close> and \<open>NaN\<close> is truthy and leaves through \<open>return 0\<close>. Here the wrapped function
  is \<open>() => -2\<close>, which returns \<open>-2\<close> whatever it is called with: the constructor
  accepts it, and the comparator built from it returns \<open>0\<close> on \<open>(3, 5)\<close> and on every
  other pair of arguments.
\<close>

theorem FunctionComparator_compare_drops_sign:
  "FunctionComparator_new (Function (\<lambda>a b. Prim (PNum (Fin (- 2)))))
      = Inr (FunctionComparator (Function (\<lambda>a b. Prim (PNum (Fin (- 2))))))
   \<and> FunctionComparator_compare (FunctionComparator (Function (\<lambda>a b. Prim (PNum (Fin (- 2))))))
        (Prim (PNum (Fin 3))) (Prim (PNum (Fin 5))) = Inr (Fin 0)
   \<and> FunctionComparator_compare (FunctionComparator (Function (\<lambda>a b. Prim (PNum (Fin (- 2))))))
        e1 e2 = Inr (Fin 0)"
  by (simp add: FunctionComparator_compare_def FunctionComparator_new_def judgeFuncType_def
      checkTrue_def isComparator_def isNull_def interpret_ret_def)

text \<open>
  C7. Constructing a \<open>FunctionComparator\<close> from a value that is neither a function nor
  comparator-like fails with the invalid-argument error "argument is not a function":
  no comparator is built, so the failure is the constructor's and not a later
  \<open>compare\<close>'s, and \<open>addComparator\<close> on a composite not yet started fails with it. For
  every value the classifier does not call \<open>UNKNOWN\<close>, the construction gives the
  comparator that wraps it.
\<close>

theorem FunctionComparator_new_rejects_unknown:
  "(\<not> isFunction f \<and> \<not> isComparator f \<longrightarrow>
      FunctionComparator_new f = Inl (IllegalArgument (Some ''argument is not a function'')))
   \<and> (judgeFuncType f \<noteq> UNKNOWN \<longrightarrow> FunctionComparator_new f = Inr (FunctionComparator f))
   \<and> (\<not> isFunction f \<and> \<not> isComparator f \<and> \<not> started this \<longrightarrow>
      addComparator this f = Inl (IllegalArgument (Some ''argument is not a function'')))"
  by (simp add: FunctionComparator_new_def checkTrue_def judgeFuncType_def addComparator_def)

theorem FunctionComparator_new_witness:
  "FunctionComparator_new (Value (Prim (PNum (Fin 7))))
      = Inl (IllegalArgument (Some ''argument is not a function''))
   \<and> FunctionComparator_new (ObjectWithCompare 1 (\<lambda>a b. a))
      = Inl (IllegalArgument (Some ''argument is not a function''))
   \<and> FunctionComparator_new (Function (\<lambda>a b. a)) = Inr (FunctionComparator (Function (\<lambda>a b. a)))
   \<and> FunctionComparator_new (ObjectWithCompare 2 (\<lambda>a b. a))
      = Inr (FunctionComparator (ObjectWithCompare 2 (\<lambda>a b. a)))
   \<and> addComparator CompositeComparator_new (Value (Prim (PNum (Fin 7))))
      = Inl (IllegalArgument (Some ''argument is not a function''))"
proof -
  have v: "\<not> isFunction (Value (Prim (PNum (Fin 7)))) \<and> \<not> isComparator (Value (Prim (PNum (Fin 7))))"
    by (simp add: isComparator_def isNull_def)
  have o1: "\<not> isFunction (ObjectWithCompare 1 (\<lambda>a b. a)) \<and> \<not> isComparator (ObjectWithCompare 1 (\<lambda>a b. a))"
    by (simp add: isComparator_def isNull_def)
  have f: "judgeFuncType (Function (\<lambda>a b. a)) \<noteq> UNKNOWN"
    by (simp add: judgeFuncType_def)
  have o2: "judgeFuncType (ObjectWithCompare 2 (\<lambda>a b. a)) \<noteq> UNKNOWN"
    by (simp add: judgeFuncType_def isComparator_def isNull_def)
  have n: "\<not> started CompositeComparator_new"
    by (simp add: CompositeComparator_new_def)
  show ?thesis
    using FunctionComparator_new_rejects_unknown [of "Value (Prim (PNum (Fin 7)))" CompositeComparator_new]
      FunctionComparator_new_rejects_unknown [of "ObjectWithCompare 1 (\<lambda>a b. a)" CompositeComparator_new]
      FunctionComparator_new_rejects_unknown [of "Function (\<lambda>a b. a)" CompositeComparator_new]
      FunctionComparator_new_rejects_unknown [of "ObjectWithCompare 2 (\<lambda>a b. a)" CompositeComparator_new]
      v o1 f o2 n
    by blast
qed

section \<open>Claims about the composite comparator\<close>

lemma eq_zero_iff: "eq_zero r \<longleftrightarrow> r = Fin 0"
  by (cases r) simp_all

lemma forEach_first_nonzero:
  assumes "map (\<lambda>c. FunctionComparator_compare c e1 e2) chain = map Inr rs"
  shows "forEach chain (\<lambda>comparator result. FunctionComparator_compare comparator e1 e2)
           (Some truePredicate) (Some (\<lambda>result. \<not> eq_zero result)) r0
         = Inr (if chain = [] then r0 else first_nonzero rs)"
  using assms
proof (induction chain arbitrary: rs r0)
  case Nil
  then show ?case by simp
next
  case (Cons c chain)
  then obtain r rs' where rs: "rs = r # rs'" and c: "FunctionComparator_compare c e1 e2 = Inr r"
    and rest: "map (\<lambda>c. FunctionComparator_compare c e1 e2) chain = map Inr rs'"
    by (cases rs) auto
  show ?case
  proof (cases "eq_zero r")
    case False
    then show ?thesis
      by (simp add: rs c truePredicate_def)
  next
    case True
    then have r: "r = Fin 0" by (simp add: eq_zero_iff)
    have "chain = [] \<Longrightarrow> rs' = []" using rest by simp
    then show ?thesis
      using Cons.IH [OF rest, of r] True
      by (simp add: rs c truePredicate_def r)
  qed
qed

text \<open>
  The iteration of \<open>CompositeComparator.compare\<close> does stop at the first result of its
  chain that is not zero: when the comparators of the chain, which are
  \<open>FunctionComparator\<close>s, return \<open>rs\<close>, the composite returns \<open>first_nonzero rs\<close>.
\<close>

lemma CompositeComparator_compare_first_nonzero:
  assumes "comps this \<noteq> []"
    and "map (\<lambda>c. FunctionComparator_compare c e1 e2) (comps this) = map Inr rs"
  shows "snd (CompositeComparator_compare this e1 e2) = Inr (first_nonzero rs)"
  using assms forEach_first_nonzero [of e1 e2 "comps this" rs "Fin 0"]
  by (simp add: CompositeComparator_compare_def Let_def checkTrue_def)

text \<open>
  C2. The claim has the composite return the first nonzero result of the comparators
  added to it. Every added comparator is wrapped in a \<open>FunctionComparator\<close>, which
  returns \<open>0\<close> for each number but \<open>NaN\<close> its comparator returns (see C1). Here the
  composite is built by \<open>wrapComparators\<close> from the functions \<open>() => 0\<close> and
  \<open>() => -2\<close>: the second returns \<open>-2\<close> on every pair of arguments, and the composite
  returns \<open>0\<close> on \<open>(3, 5)\<close> and on every other pair.
\<close>

theorem CompositeComparator_compare_loses_second_result:
  "wrapComparators
      [Function (\<lambda>a b. Prim (PNum (Fin 0))), Function (\<lambda>a b. Prim (PNum (Fin (- 2))))]
    = Inr \<lparr>comps =
        [FunctionComparator (Function (\<lambda>a b. Prim (PNum (Fin 0)))),
         FunctionComparator (Function (\<lambda>a b. Prim (PNum (Fin (- 2)))))],
        started = False\<rparr>
   \<and> snd (CompositeComparator_compare
        \<lparr>comps =
          [FunctionComparator (Function (\<lambda>a b. Prim (PNum (Fin 0)))),
           FunctionComparator (Function (\<lambda>a b. Prim (PNum (Fin (- 2)))))],
         started = False\<rparr>
        (Prim (PNum (Fin 3))) (Prim (PNum (Fin 5)))) = Inr (Fin 0)
   \<and> snd (CompositeComparator_compare
        \<lparr>comps =
          [FunctionComparator (Function (\<lambda>a b. Prim (PNum (Fin 0)))),
           FunctionComparator (Function (\<lambda>a b. Prim (PNum (Fin (- 2)))))],
         started = False\<rparr>
        e1 e2) = Inr (Fin 0)"
  by (simp add: wrapComparators_def CompositeComparator_new_def addComparator_def
      FunctionComparator_new_def judgeFuncType_def checkTrue_def isComparator_def isNull_def
      CompositeComparator_compare_def truePredicate_def
      FunctionComparator_compare_def interpret_ret_def)

subsection \<open>The started flag\<close>

lemma CompositeComparator_compare_state:
  "fst (CompositeComparator_compare this e1 e2) = this\<lparr>started := True\<rparr>"
  by (simp add: CompositeComparator_compare_def Let_def)

lemma addComparator_started: "started this \<Longrightarrow> addComparator this c = Inr this"
  by (simp add: addComparator_def)

lemma CompositeComparator_compare_started:
  "started this \<Longrightarrow> fst (CompositeComparator_compare this e1 e2) = this"
  by (simp add: CompositeComparator_compare_state)

lemma run_started: "started this \<Longrightarrow> run this calls = run this (filter is_Compare calls)"
proof (induction calls)
  case Nil
  show ?case by simp
next
  case (Cons c calls)
  then show ?case
    by (cases c) (simp_all add: addComparator_started CompositeComparator_compare_started)
qed

lemma CompositeComparator_compare_empty:
  "comps this = [] \<Longrightarrow> snd (CompositeComparator_compare this e1 e2) = Inl (IllegalArgument None)"
  by (simp add: CompositeComparator_compare_def Let_def checkTrue_def)

lemma run_empty_started:
  "started this \<Longrightarrow> comps this = [] \<Longrightarrow>
     list_all (\<lambda>r. r = Inl (IllegalArgument None)) (run this calls)"
proof (induction calls)
  case Nil
  show ?case by simp
next
  case (Cons c calls)
  then show ?case
    by (cases c)
      (simp_all add: addComparator_started CompositeComparator_compare_started
        CompositeComparator_compare_empty)
qed

lemma forEach_addComparator_all_null:
  "list_all eq_null funcs \<Longrightarrow>
     forEach funcs (\<lambda>c comparator. addComparator comparator c) (Some (\<lambda>c. \<not> eq_null c)) None this
       = Inr this"
  by (induction funcs) simp_all

text \<open>
  C8. \<open>compare\<close> on a composite whose chain is empty fails with the invalid-argument
  error of the assertion, and so does not return \<open>0\<close>: on any composite with an empty
  chain, on a freshly constructed one, and on the one \<open>wrapComparators\<close> builds when
  every entry is null and skipped.
\<close>

theorem CompositeComparator_compare_empty_fails:
  "(comps this = [] \<longrightarrow>
      snd (CompositeComparator_compare this e1 e2) = Inl (IllegalArgument None)
      \<and> snd (CompositeComparator_compare this e1 e2) \<noteq> Inr (Fin 0))
   \<and> snd (CompositeComparator_compare CompositeComparator_new e1 e2) = Inl (IllegalArgument None)
   \<and> (list_all eq_null funcs \<longrightarrow>
        wrapComparators funcs = Inr CompositeComparator_new
        \<and> snd (CompositeComparator_compare (projr (wrapComparators funcs)) e1 e2)
            = Inl (IllegalArgument None))"
proof -
  have n: "comps CompositeComparator_new = []"
    by (simp add: CompositeComparator_new_def)
  have w: "wrapComparators funcs = Inr CompositeComparator_new" if "list_all eq_null funcs"
    using that by (simp add: wrapComparators_def forEach_addComparator_all_null)
  show ?thesis
    using n w by (auto simp: CompositeComparator_compare_empty)
qed

theorem CompositeComparator_compare_empty_fails_witness:
  "comps \<lparr>comps = [], started = True\<rparr> = []
   \<and> snd (CompositeComparator_compare \<lparr>comps = [], started = True\<rparr>
        (Prim (PNum (Fin 1))) (Prim (PNum (Fin 2)))) = Inl (IllegalArgument None)
   \<and> list_all eq_null [Value (Prim PNull), Value (Prim PUndefined)]
   \<and> wrapComparators [Value (Prim PNull), Value (Prim PUndefined)] = Inr CompositeComparator_new
   \<and> snd (CompositeComparator_compare
        (projr (wrapComparators [Value (Prim PNull), Value (Prim PUndefined)]))
        (Prim (PNum (Fin 1))) (Prim (PNum (Fin 2)))) = Inl (IllegalArgument None)"
proof -
  have h1: "comps \<lparr>comps = [], started = True\<rparr> = []"
    by simp
  have h2: "list_all eq_null [Value (Prim PNull), Value (Prim PUndefined)]"
    by (simp add: is_nullish_def)
  show ?thesis
    using CompositeComparator_compare_empty_fails
      [of "\<lparr>comps = [], started = True\<rparr>" "Prim (PNum (Fin 1))" "Prim (PNum (Fin 2))"
          "[Value (Prim PNull), Value (Prim PUndefined)]"]
      h1 h2
    by blast
qed

text \<open>
  C9. After a \<open>compare\<close> call on a composite, the chain is the one before the call and
  the composite is started; every \<open>addComparator\<close> call then returns without an error
  and leaves the composite as it is; and whatever calls follow, the results of the
  \<open>compare\<close> calls among them are those of the same calls with every \<open>addComparator\<close>
  call left out.
\<close>

theorem addComparator_after_compare_is_noop:
  "comps (fst (CompositeComparator_compare this e1 e2)) = comps this
   \<and> started (fst (CompositeComparator_compare this e1 e2))
   \<and> addComparator (fst (CompositeComparator_compare this e1 e2)) c
       = Inr (fst (CompositeComparator_compare this e1 e2))
   \<and> run (fst (CompositeComparator_compare this e1 e2)) calls
       = run (fst (CompositeComparator_compare this e1 e2)) (filter is_Compare calls)"
proof -
  have s: "started (fst (CompositeComparator_compare this e1 e2))"
    by (simp add: CompositeComparator_compare_state)
  have c: "comps (fst (CompositeComparator_compare this e1 e2)) = comps this"
    by (simp add: CompositeComparator_compare_state)
  from s c addComparator_started [OF s] run_started [OF s] show ?thesis
    by simp
qed

theorem addComparator_after_compare_witness:
  "run (fst (CompositeComparator_compare
          \<lparr>comps = [FunctionComparator (Function (\<lambda>a b. Prim (PBool (strict_eq a b))))],
           started = False\<rparr>
          (Prim (PNum (Fin 1))) (Prim (PNum (Fin 1)))))
       [AddComparator (Function (\<lambda>a b. Prim PNull)),
        Compare (Prim (PNum (Fin 1))) (Prim (PNum (Fin 1))),
        AddComparator (Value (Prim (PNum (Fin 7)))),
        Compare (Prim (PNum (Fin 1))) (Prim (PNum (Fin 2)))]
     = [Inr (Fin 0), Inr (Fin 1)]
   \<and> run \<lparr>comps = [FunctionComparator (Function (\<lambda>a b. Prim (PBool (strict_eq a b))))],
           started = False\<rparr>
       [AddComparator (Function (\<lambda>a b. Prim PNull)),
        Compare (Prim (PNum (Fin 1))) (Prim (PNum (Fin 1)))]
     = [Inr (Fin 1)]"
proof -
  have after: "run (fst (CompositeComparator_compare
          \<lparr>comps = [FunctionComparator (Function (\<lambda>a b. Prim (PBool (strict_eq a b))))],
           started = False\<rparr>
          (Prim (PNum (Fin 1))) (Prim (PNum (Fin 1)))))
       (filter is_Compare
         [AddComparator (Function (\<lambda>a b. Prim PNull)),
          Compare (Prim (PNum (Fin 1))) (Prim (PNum (Fin 1))),
          AddComparator (Value (Prim (PNum (Fin 7)))),
          Compare (Prim (PNum (Fin 1))) (Prim (PNum (Fin 2)))])
     = [Inr (Fin 0), Inr (Fin 1)]"
    by (simp add: CompositeComparator_compare_def checkTrue_def truePredicate_def
        FunctionComparator_compare_def isComparator_def isNull_def is_nullish_def
        interpret_ret_def)
  have before: "run \<lparr>comps = [FunctionComparator (Function (\<lambda>a b. Prim (PBool (strict_eq a b))))],
           started = False\<rparr>
       [AddComparator (Function (\<lambda>a b. Prim PNull)),
        Compare (Prim (PNum (Fin 1))) (Prim (PNum (Fin 1)))]
     = [Inr (Fin 1)]"
    by (simp add: addComparator_def FunctionComparator_new_def judgeFuncType_def
        CompositeComparator_compare_def checkTrue_def truePredicate_def
        FunctionComparator_compare_def isComparator_def isNull_def is_nullish_def
        interpret_ret_def)
  show ?thesis
    using addComparator_after_compare_is_noop
      [of "\<lparr>comps = [FunctionComparator (Function (\<lambda>a b. Prim (PBool (strict_eq a b))))],
            started = False\<rparr>"
          "Prim (PNum (Fin 1))" "Prim (PNum (Fin 1))" "Value (Prim PNull)"
          "[AddComparator (Function (\<lambda>a b. Prim PNull)),
            Compare (Prim (PNum (Fin 1))) (Prim (PNum (Fin 1))),
            AddComparator (Value (Prim (PNum (Fin 7)))),
            Compare (Prim (PNum (Fin 1))) (Prim (PNum (Fin 2)))]"]
      after before
    by simp
qed

text \<open>
  C10. When \<open>compare\<close> is called on a composite whose chain is empty, the call fails,
  and the composite it leaves is started with its chain still empty: every later
  \<open>addComparator\<close> call returns without adding, and every later \<open>compare\<close> call fails
  with the same error, whatever calls are made.
\<close>

theorem failed_compare_freezes_composite:
  "comps this = [] \<longrightarrow>
     snd (CompositeComparator_compare this e1 e2) = Inl (IllegalArgument None)
     \<and> started (fst (CompositeComparator_compare this e1 e2))
     \<and> comps (fst (CompositeComparator_compare this e1 e2)) = []
     \<and> addComparator (fst (CompositeComparator_compare this e1 e2)) c
         = Inr (fst (CompositeComparator_compare this e1 e2))
     \<and> snd (CompositeComparator_compare (fst (CompositeComparator_compare this e1 e2)) e1' e2')
         = Inl (IllegalArgument None)
     \<and> list_all (\<lambda>r. r = Inl (IllegalArgument None))
         (run (fst (CompositeComparator_compare this e1 e2)) calls)"
proof
  assume e: "comps this = []"
  have s: "started (fst (CompositeComparator_compare this e1 e2))"
    by (simp add: CompositeComparator_compare_state)
  have c: "comps (fst (CompositeComparator_compare this e1 e2)) = []"
    using e by (simp add: CompositeComparator_compare_state)
  show "snd (CompositeComparator_compare this e1 e2) = Inl (IllegalArgument None)
     \<and> started (fst (CompositeComparator_compare this e1 e2))
     \<and> comps (fst (CompositeComparator_compare this e1 e2)) = []
     \<and> addComparator (fst (CompositeComparator_compare this e1 e2)) c
         = Inr (fst (CompositeComparator_compare this e1 e2))
     \<and> snd (CompositeComparator_compare (fst (CompositeComparator_compare this e1 e2)) e1' e2')
         = Inl (IllegalArgument None)
     \<and> list_all (\<lambda>r. r = Inl (IllegalArgument None))
         (run (fst (CompositeComparator_compare this e1 e2)) calls)"
    using s c e addComparator_started [OF s] run_empty_started [OF s c]
      CompositeComparator_compare_empty [OF e] CompositeComparator_compare_empty [OF c]
    by simp
qed

theorem failed_compare_freezes_composite_witness:
  "comps CompositeComparator_new = []
   \<and> \<not> started CompositeComparator_new
   \<and> addComparator CompositeComparator_new (Function (\<lambda>a b. Prim (PBool (strict_eq a b))))
       = Inr \<lparr>comps = [FunctionComparator (Function (\<lambda>a b. Prim (PBool (strict_eq a b))))],
              started = False\<rparr>
   \<and> snd (CompositeComparator_compare CompositeComparator_new
        (Prim (PNum (Fin 1))) (Prim (PNum (Fin 2)))) = Inl (IllegalArgument None)
   \<and> fst (CompositeComparator_compare CompositeComparator_new
        (Prim (PNum (Fin 1))) (Prim (PNum (Fin 2)))) = \<lparr>comps = [], started = True\<rparr>
   \<and> addComparator \<lparr>comps = [], started = True\<rparr>
        (Function (\<lambda>a b. Prim (PBool (strict_eq a b))))
       = Inr \<lparr>comps = [], started = True\<rparr>
   \<and> run \<lparr>comps = [], started = True\<rparr>
        [AddComparator (Function (\<lambda>a b. Prim (PBool (strict_eq a b)))),
         Compare (Prim (PNum (Fin 1))) (Prim (PNum (Fin 1)))]
       = [Inl (IllegalArgument None)]"
proof -
  have h: "comps CompositeComparator_new = []" "\<not> started CompositeComparator_new"
    by (simp_all add: CompositeComparator_new_def)
  have st: "fst (CompositeComparator_compare CompositeComparator_new
        (Prim (PNum (Fin 1))) (Prim (PNum (Fin 2)))) = \<lparr>comps = [], started = True\<rparr>"
    by (simp add: CompositeComparator_compare_state CompositeComparator_new_def)
  have fresh: "addComparator CompositeComparator_new (Function (\<lambda>a b. Prim (PBool (strict_eq a b))))
       = Inr \<lparr>comps = [FunctionComparator (Function (\<lambda>a b. Prim (PBool (strict_eq a b))))],
              started = False\<rparr>"
    by (simp add: addComparator_def CompositeComparator_new_def FunctionComparator_new_def
        judgeFuncType_def checkTrue_def)
  have len: "run \<lparr>comps = [], started = True\<rparr>
        [AddComparator (Function (\<lambda>a b. Prim (PBool (strict_eq a b)))),
         Compare (Prim (PNum (Fin 1))) (Prim (PNum (Fin 1)))]
       = [snd (CompositeComparator_compare \<lparr>comps = [], started = True\<rparr>
            (Prim (PNum (Fin 1))) (Prim (PNum (Fin 1))))]"
    by (simp add: addComparator_def)
  show ?thesis
    using failed_compare_freezes_composite
      [of CompositeComparator_new "Prim (PNum (Fin 1))" "Prim (PNum (Fin 2))"
          "Function (\<lambda>a b. Prim (PBool (strict_eq a b)))"
          "Prim (PNum (Fin 1))" "Prim (PNum (Fin 1))"
          "[AddComparator (Function (\<lambda>a b. Prim (PBool (strict_eq a b)))),
            Compare (Prim (PNum (Fin 1))) (Prim (PNum (Fin 1)))]"]
      h st fresh len
    by simp
qed

section \<open>Claims about the generic object comparator\<close>






end
